theory Spec2Isabelle
  imports Complex_Main "HOL-Library.Word" "HOL-Library.Multiset"
begin

section \<open>JavaScript strings\<close>

text \<open>
  A JavaScript string is a sequence of UTF-16 code units. \<open>js\<close> writes an ASCII literal.
\<close>

type_synonym jschar = "16 word"
type_synonym jsstring = "jschar list"

definition js :: "string \<Rightarrow> jsstring" where
  "js s = map (\<lambda>c. of_nat (of_char c)) s"

text \<open>
  \<open>String.prototype.trim\<close> strips WhiteSpace and LineTerminator code units from both ends
  (ECMAScript: TAB, VT, FF, SP, NBSP, ZWNBSP, the Unicode space separators, LF, CR, LS, PS).
\<close>

definition isWhiteSpace :: "jschar \<Rightarrow> bool" where
  "isWhiteSpace c \<longleftrightarrow>
     c \<in> {0x9, 0xA, 0xB, 0xC, 0xD, 0x20, 0xA0, 0x1680, 0x2028, 0x2029, 0x202F, 0x205F,
          0x3000, 0xFEFF}
     \<or> (0x2000 \<le> c \<and> c \<le> 0x200A)"

definition trim :: "jsstring \<Rightarrow> jsstring" where
  "trim s = rev (dropWhile isWhiteSpace (rev (dropWhile isWhiteSpace s)))"

text \<open>\<open>indexOf\<close> and \<open>lastIndexOf\<close> of a single code unit: the position, or \<open>-1\<close>.\<close>

fun indexOf :: "jsstring \<Rightarrow> jschar \<Rightarrow> int" where
  "indexOf [] c = -1"
| "indexOf (x # xs) c =
     (if x = c then 0 else (let i = indexOf xs c in if i = -1 then -1 else i + 1))"

definition lastIndexOf :: "jsstring \<Rightarrow> jschar \<Rightarrow> int" where
  "lastIndexOf s c =
     (let i = indexOf (rev s) c in if i = -1 then -1 else int (length s) - 1 - i)"

text \<open>\<open>String.prototype.slice(start, end)\<close>: negative arguments count from the end.\<close>

definition slice :: "jsstring \<Rightarrow> int \<Rightarrow> int \<Rightarrow> jsstring" where
  "slice s a b =
     (let n = int (length s);
          from = (if a < 0 then max (n + a) 0 else min a n);
          to = (if b < 0 then max (n + b) 0 else min b n)
      in take (nat (to - from)) (drop (nat from) s))"

section \<open>Data model\<close>

text \<open>
  \<open>interface Todo\<close> of \<open>pages/Todos.tsx\<close>. The column \<open>created_at\<close> is a
  \<open>TIMESTAMP WITH TIME ZONE\<close> of the table; the client receives its text, the service orders
  by its value, which is what the model keeps (a count of time units).
\<close>

record todo =
  todo_id :: jsstring
  title :: jsstring
  completed :: bool
  created_at :: nat
  user_id :: jsstring

text \<open>\<open>Partial<Todo>\<close>: every field of \<open>Todo\<close>, each optional.\<close>

record partial_todo =
  upd_id :: "jsstring option"
  upd_title :: "jsstring option"
  upd_completed :: "bool option"
  upd_created_at :: "nat option"
  upd_user_id :: "jsstring option"

definition no_updates :: partial_todo where
  "no_updates = \<lparr>upd_id = None, upd_title = None, upd_completed = None,
                  upd_created_at = None, upd_user_id = None\<rparr>"

text \<open>
  Every \<open>throw\<close> and rejected promise is a value: \<open>Error('Not authenticated')\<close>, an
  error object of the data service (with its message), \<open>Error('AI is not configured. ...')\<close>,
  \<open>Error('AI request failed: status statusText - text')\<close>, \<open>Error('AI response was empty.')\<close>,
  \<open>Error('Failed to parse AI response. Please try again.')\<close>; and the errors nothing in
  the code catches: \<open>fetch\<close> rejecting, \<open>response.json()\<close> rejecting, a property read
  on \<open>null\<close>.
\<close>

datatype err =
    NotAuthenticatedError
  | RemoteError jsstring
  | NotConfiguredError
  | RequestFailedError nat jsstring jsstring
  | EmptyResponseError
  | ParseError
  | FetchRejected
  | BodyNotJson
  | TypeError

section \<open>The remote data service\<close>

text \<open>
  The hosted service is reached through the \<open>supabase\<close> client only. Its table, column
  defaults and row-level policies are those of \<open>supabase-setup.sql\<close>:
  \<^item> \<open>id UUID DEFAULT gen_random_uuid() PRIMARY KEY\<close>, \<open>completed BOOLEAN DEFAULT FALSE\<close>,
    \<open>created_at ... DEFAULT NOW()\<close>;
  \<^item> every policy (select, insert, update, delete) is \<open>auth.uid() = user_id\<close>.

  What the service decides by itself at one request is an input of the model: whether the
  request fails (and with which message), the value \<open>gen_random_uuid()\<close> draws and the
  reading of the clock.
\<close>

record reply =
  fault :: "jsstring option"
  uuid :: jsstring
  now :: nat

datatype request =
    GetUser
  | Select
  | Insert jsstring jsstring
  | Update jsstring partial_todo
  | Delete jsstring

record remote =
  rows :: "todo list"
  uid :: "jsstring option"
  requests :: "request list"

definition received :: "request \<Rightarrow> remote \<Rightarrow> remote" where
  "received q r = r\<lparr>requests := requests r @ [q]\<rparr>"

definition policy :: "remote \<Rightarrow> todo \<Rightarrow> bool" where
  "policy r t \<longleftrightarrow> uid r = Some (user_id t)"

text \<open>\<open>.order('created_at', { ascending: false })\<close>. The service leaves the order of rows
  with equal \<open>created_at\<close> open; the model fixes one.\<close>

definition order_desc :: "todo list \<Rightarrow> todo list" where
  "order_desc ts = rev (sort_key created_at ts)"

text \<open>\<open>supabase.auth.getUser()\<close>: the identity of the session, \<open>null\<close> when there is none
  or the request fails.\<close>

definition auth_getUser :: "reply \<Rightarrow> remote \<Rightarrow> jsstring option \<times> remote" where
  "auth_getUser e r = ((if fault e = None then uid r else None), received GetUser r)"

text \<open>
  The responses of the client are the union
  \<open>{data, error: null} | {data: null, error}\<close>: \<open>Inr data\<close> or \<open>Inl message\<close>.
\<close>

definition select_order :: "reply \<Rightarrow> remote \<Rightarrow> (jsstring + todo list) \<times> remote" where
  "select_order e r =
     (case fault e of
        Some m \<Rightarrow> (Inl m, received Select r)
      | None \<Rightarrow> (Inr (order_desc (filter (policy r) (rows r))), received Select r))"

definition insert_single ::
  "reply \<Rightarrow> jsstring \<Rightarrow> jsstring \<Rightarrow> remote \<Rightarrow> (jsstring + todo) \<times> remote" where
  "insert_single e t u r =
     (let row = \<lparr>todo_id = uuid e, title = t, completed = False, created_at = now e,
                 user_id = u\<rparr>;
          r1 = received (Insert t u) r
      in case fault e of
           Some m \<Rightarrow> (Inl m, r1)
         | None \<Rightarrow>
             if \<not> policy r row
             then (Inl (js ''new row violates row-level security policy''), r1)
             else if uuid e \<in> todo_id ` set (rows r)
             then (Inl (js ''duplicate key value violates unique constraint''), r1)
             else (Inr row, r1\<lparr>rows := rows r @ [row]\<rparr>))"

definition apply_updates :: "partial_todo \<Rightarrow> todo \<Rightarrow> todo" where
  "apply_updates u t =
     \<lparr>todo_id = (case upd_id u of None \<Rightarrow> todo_id t | Some v \<Rightarrow> v),
      title = (case upd_title u of None \<Rightarrow> title t | Some v \<Rightarrow> v),
      completed = (case upd_completed u of None \<Rightarrow> completed t | Some v \<Rightarrow> v),
      created_at = (case upd_created_at u of None \<Rightarrow> created_at t | Some v \<Rightarrow> v),
      user_id = (case upd_user_id u of None \<Rightarrow> user_id t | Some v \<Rightarrow> v)\<rparr>"

text \<open>
  \<open>.update(updates).eq('id', id).select().single()\<close>: the rows the policy lets the identity
  see and whose id matches are updated; each new row must pass the policy again
  (\<open>WITH CHECK\<close>) and the primary key must stay unique; \<open>single()\<close> is an error unless
  exactly one row comes back. A failed statement changes nothing. A payload with no column
  updates no row.
\<close>

definition update_single ::
  "reply \<Rightarrow> jsstring \<Rightarrow> partial_todo \<Rightarrow> remote \<Rightarrow> (jsstring + todo) \<times> remote" where
  "update_single e i u r =
     (let hit = (\<lambda>t. policy r t \<and> todo_id t = i \<and> u \<noteq> no_updates);
          new = map (apply_updates u) (filter hit (rows r));
          rows' = map (\<lambda>t. if hit t then apply_updates u t else t) (rows r);
          r1 = received (Update i u) r
      in case fault e of
           Some m \<Rightarrow> (Inl m, r1)
         | None \<Rightarrow>
             if \<exists>t \<in> set new. \<not> policy r t
             then (Inl (js ''new row violates row-level security policy''), r1)
             else if \<not> distinct (map todo_id rows')
             then (Inl (js ''duplicate key value violates unique constraint''), r1)
             else (case new of
                     [t] \<Rightarrow> (Inr t, r1\<lparr>rows := rows'\<rparr>)
                   | _ \<Rightarrow> (Inl (js ''JSON object requested, multiple (or no) rows returned''),
                           r1)))"

definition delete_eq :: "reply \<Rightarrow> jsstring \<Rightarrow> remote \<Rightarrow> jsstring option \<times> remote" where
  "delete_eq e i r =
     (let r1 = received (Delete i) r
      in case fault e of
           Some m \<Rightarrow> (Some m, r1)
         | None \<Rightarrow> (None, r1\<lparr>rows := filter (\<lambda>t. \<not> (policy r t \<and> todo_id t = i)) (rows r)\<rparr>))"

section \<open>The data access layer (\<open>pages/Todos.tsx\<close>)\<close>

text \<open>
  Each function awaits its requests in order; \<open>throw\<close> is \<open>Inl\<close>. An error of the service
  is thrown as it is, so it carries the message of the service. In \<open>fetchTodos\<close>,
  \<open>data || []\<close> is \<open>data\<close>: a response without error has its rows.
\<close>

definition fetchTodos :: "reply \<Rightarrow> remote \<Rightarrow> (err + todo list) \<times> remote" where
  "fetchTodos e r =
     (case select_order e r of
        (Inl m, r') \<Rightarrow> (Inl (RemoteError m), r')
      | (Inr d, r') \<Rightarrow> (Inr d, r'))"

definition createTodo ::
  "jsstring \<Rightarrow> reply \<Rightarrow> reply \<Rightarrow> remote \<Rightarrow> (err + todo) \<times> remote" where
  "createTodo t e1 e2 r =
     (case auth_getUser e1 r of
        (None, r1) \<Rightarrow> (Inl NotAuthenticatedError, r1)
      | (Some u, r1) \<Rightarrow>
          (case insert_single e2 t u r1 of
             (Inl m, r2) \<Rightarrow> (Inl (RemoteError m), r2)
           | (Inr d, r2) \<Rightarrow> (Inr d, r2)))"

definition updateTodo ::
  "jsstring \<Rightarrow> partial_todo \<Rightarrow> reply \<Rightarrow> remote \<Rightarrow> (err + todo) \<times> remote" where
  "updateTodo i u e r =
     (case update_single e i u r of
        (Inl m, r') \<Rightarrow> (Inl (RemoteError m), r')
      | (Inr d, r') \<Rightarrow> (Inr d, r'))"

definition deleteTodo :: "jsstring \<Rightarrow> reply \<Rightarrow> remote \<Rightarrow> (err + unit) \<times> remote" where
  "deleteTodo i e r =
     (case delete_eq e i r of
        (Some m, r') \<Rightarrow> (Inl (RemoteError m), r')
      | (None, r') \<Rightarrow> (Inr (), r'))"

section \<open>The AI gateway (\<open>lib/ai.ts\<close>)\<close>

text \<open>The environment of the build: a variable is a string or is not set.\<close>

record env =
  VITE_OPENAI_API_KEY :: "jsstring option"
  VITE_OPENAI_API_BASE :: "jsstring option"

text \<open>\<open>import.meta.env.X?.trim() || default\<close>: the default also replaces an empty string.\<close>

definition openAiApiKey :: "env \<Rightarrow> jsstring" where
  "openAiApiKey v = (case VITE_OPENAI_API_KEY v of None \<Rightarrow> [] | Some k \<Rightarrow> trim k)"

definition openAiApiBase :: "env \<Rightarrow> jsstring" where
  "openAiApiBase v =
     (case VITE_OPENAI_API_BASE v of
        None \<Rightarrow> js ''https://api.openai.com/v1''
      | Some b \<Rightarrow> if trim b = [] then js ''https://api.openai.com/v1'' else trim b)"

text \<open>
  The values \<open>JSON.parse\<close> produces. An object is the list of its properties.
  \<open>JSON.parse\<close> itself is a builtin of the language: the gateway takes it as the parameter
  \<open>JSON_parse\<close>, \<open>None\<close> where it throws.
\<close>

datatype json =
    JNull
  | JBool bool
  | JNumber rat
  | JString jsstring
  | JArray "json list"
  | JObject "(jsstring \<times> json) list"

fun join :: "jsstring \<Rightarrow> jsstring list \<Rightarrow> jsstring" where
  "join sep [] = []"
| "join sep [x] = x"
| "join sep (x # y # ys) = x @ sep @ join sep (y # ys)"

text \<open>
  The request of \<open>fetch\<close>: the address, the bearer token, the model, the part of the system
  prompt that depends on the arguments (\<open>existingTitles.join(', ') || 'none'\<close>), the user
  message and the size cap. The fixed text of the prompt is left out.
\<close>

record ai_request =
  url :: jsstring
  authorization :: jsstring
  model :: jsstring
  existing_todos :: jsstring
  user_content :: jsstring
  max_tokens :: nat

text \<open>
  The response, with the body as the code declares it:
  \<open>{ choices?: { message?: { content?: string } }[] }\<close>; \<open>json_body\<close> is \<open>None\<close> when
  \<open>response.json()\<close> rejects.
\<close>

record chat_message =
  content :: "jsstring option"

record chat_choice =
  message :: "chat_message option"

record chat_completion =
  choices :: "chat_choice list option"

record http_response =
  ok :: bool
  status :: nat
  statusText :: jsstring
  body_text :: jsstring
  json_body :: "chat_completion option"

definition LBRACE :: jschar where
  "LBRACE = 0x7B"

definition RBRACE :: jschar where
  "RBRACE = 0x7D"

text \<open>\<open>json.choices?.[0]?.message?.content\<close>\<close>

definition first_content :: "chat_completion \<Rightarrow> jsstring option" where
  "first_content j =
     (case choices j of
        None \<Rightarrow> None
      | Some [] \<Rightarrow> None
      | Some (c # _) \<Rightarrow> (case message c of None \<Rightarrow> None | Some m \<Rightarrow> content m))"

text \<open>The \<open>try\<close>/\<open>catch\<close> around the two parses (lines 116 to 132 of the gateway).\<close>

definition parse_content :: "(jsstring \<Rightarrow> json option) \<Rightarrow> jsstring \<Rightarrow> err + json" where
  "parse_content JSON_parse c =
     (case JSON_parse c of
        Some parsed \<Rightarrow> Inr parsed
      | None \<Rightarrow>
          (let start = indexOf c LBRACE;
               endIndex = lastIndexOf c RBRACE
           in if start \<noteq> -1 \<and> endIndex \<noteq> -1
              then (case JSON_parse (slice c start (endIndex + 1)) of
                      Some parsed \<Rightarrow> Inr parsed
                    | None \<Rightarrow> Inl ParseError)
              else Inl ParseError))"

text \<open>
  \<open>parsed.suggestions ?? []\<close>: the property of an object, \<open>[]\<close> when it is missing or
  \<open>null\<close>; a primitive or an array has no such property; reading it on \<open>null\<close> throws.
  The value is returned as it is (the type of the result is a cast).
\<close>

fun suggestions :: "json \<Rightarrow> err + json" where
  "suggestions JNull = Inl TypeError"
| "suggestions (JObject kvs) =
     (case map_of kvs (js ''suggestions'') of
        None \<Rightarrow> Inr (JArray [])
      | Some JNull \<Rightarrow> Inr (JArray [])
      | Some v \<Rightarrow> Inr v)"
| "suggestions v = Inr (JArray [])"

definition parse_completion :: "(jsstring \<Rightarrow> json option) \<Rightarrow> jsstring \<Rightarrow> err + json" where
  "parse_completion JSON_parse c =
     (case parse_content JSON_parse c of
        Inl e \<Rightarrow> Inl e
      | Inr parsed \<Rightarrow> suggestions parsed)"

definition completion_request :: "env \<Rightarrow> jsstring \<Rightarrow> jsstring list \<Rightarrow> ai_request" where
  "completion_request v prompt existingTitles =
     \<lparr>url = openAiApiBase v @ js ''/chat/completions'',
      authorization = js ''Bearer '' @ openAiApiKey v,
      model = js ''gpt-4.1-mini'',
      existing_todos =
        (if join (js '', '') existingTitles = [] then js ''none''
         else join (js '', '') existingTitles),
      user_content = prompt,
      max_tokens = 600\<rparr>"

text \<open>
  \<open>generateTodosFromPrompt\<close>. \<open>fetch\<close> is the network (\<open>None\<close>: the promise rejects). The
  second component of the result lists the requests that were sent.
\<close>

definition generateTodosFromPrompt ::
  "(jsstring \<Rightarrow> json option) \<Rightarrow> env \<Rightarrow> (ai_request \<Rightarrow> http_response option) \<Rightarrow>
     jsstring \<Rightarrow> jsstring list \<Rightarrow> (err + json) \<times> ai_request list" where
  "generateTodosFromPrompt JSON_parse v fetch prompt existingTitles =
     (if openAiApiKey v = [] then (Inl NotConfiguredError, [])
      else
        (let req = completion_request v prompt existingTitles
         in case fetch req of
              None \<Rightarrow> (Inl FetchRejected, [req])
            | Some response \<Rightarrow>
                if \<not> ok response
                then (Inl (RequestFailedError (status response) (statusText response)
                             (body_text response)), [req])
                else
                  (case json_body response of
                     None \<Rightarrow> (Inl BodyNotJson, [req])
                   | Some j \<Rightarrow>
                       (case first_content j of
                          None \<Rightarrow> (Inl EmptyResponseError, [req])
                        | Some c \<Rightarrow>
                            if c = [] then (Inl EmptyResponseError, [req])
                            else (parse_completion JSON_parse c, [req])))))"

text \<open>A response of status 200 with the completion text \<open>c\<close>, and a network that gives
  it to every request.\<close>

definition ok_response :: "jsstring \<Rightarrow> http_response" where
  "ok_response c =
     \<lparr>ok = True, status = 200, statusText = js ''OK'', body_text = [],
      json_body = Some \<lparr>choices = Some [\<lparr>message = Some \<lparr>content = Some c\<rparr>\<rparr>]\<rparr>\<rparr>"

definition completes_with :: "jsstring \<Rightarrow> ai_request \<Rightarrow> http_response option" where
  "completes_with c q = Some (ok_response c)"

section \<open>The view's commands (\<open>pages/Todos.tsx\<close>)\<close>

text \<open>\<open>z.object({ title: z.string().min(1, 'Title is required') })\<close>: the message or the
  accepted title.\<close>

definition todoSchema :: "jsstring \<Rightarrow> jsstring + jsstring" where
  "todoSchema t = (if length t < 1 then Inl (js ''Title is required'') else Inr t)"

text \<open>
  \<open>handleSubmit(onSubmit)\<close>: \<open>onSubmit\<close> runs only when the resolver accepts the form; it
  passes \<open>data.title\<close> to \<open>createMutation.mutateAsync\<close>. The result is the title sent,
  if any.
\<close>

definition onSubmit :: "jsstring \<Rightarrow> jsstring option" where
  "onSubmit input = (case todoSchema input of Inl _ \<Rightarrow> None | Inr t \<Rightarrow> Some t)"

text \<open>\<open>handleSaveEdit\<close>: the variables passed to \<open>updateMutation.mutateAsync\<close>, if any.\<close>

definition handleSaveEdit :: "jsstring \<Rightarrow> jsstring \<Rightarrow> (jsstring \<times> partial_todo) option" where
  "handleSaveEdit i editTitle =
     (if trim editTitle = [] then None
      else Some (i, no_updates\<lparr>upd_title := Some (trim editTitle)\<rparr>))"

text \<open>The checkbox: \<open>updateMutation.mutate({ id, updates: { completed: checked } })\<close>.\<close>

definition toggle :: "jsstring \<Rightarrow> bool \<Rightarrow> jsstring \<times> partial_todo" where
  "toggle i checked = (i, no_updates\<lparr>upd_completed := Some checked\<rparr>)"

text \<open>A payload within the shape \<open>{title?, completed?}\<close>: no other field is provided.\<close>

definition title_completed_only :: "partial_todo \<Rightarrow> bool" where
  "title_completed_only u \<longleftrightarrow>
     upd_id u = None \<and> upd_created_at u = None \<and> upd_user_id u = None"

record AiTodoSuggestion =
  sugg_title :: jsstring
  reason :: "jsstring option"

text \<open>
  The titles \<open>handleAddSelectedSuggestions\<close> adds: \<open>aiSuggestions[i]?.title\<close> of each
  selected index (\<open>undefined\<close> out of range), kept when \<open>Boolean(t && t.trim())\<close>.
\<close>

definition titlesToAdd :: "nat list \<Rightarrow> AiTodoSuggestion list \<Rightarrow> jsstring list" where
  "titlesToAdd selectedSuggestionIndexes aiSuggestions =
     filter (\<lambda>t. t \<noteq> [] \<and> trim t \<noteq> [])
       (concat (map (\<lambda>i. if i < length aiSuggestions then [sugg_title (aiSuggestions ! i)]
                          else [])
                  selectedSuggestionIndexes))"

section \<open>The query cache\<close>

text \<open>
  The options of \<open>new QueryClient\<close> in \<open>App.tsx\<close>: \<open>queries: { refetchOnWindowFocus: false,
  retry: 1 }\<close>. There is no \<open>mutations\<close> entry, so a mutation keeps the default of no retry.
\<close>

record default_options =
  queries_refetchOnWindowFocus :: bool
  queries_retry :: nat
  mutations_retry :: nat

definition queryClient :: default_options where
  "queryClient = \<lparr>queries_refetchOnWindowFocus = False, queries_retry = 1, mutations_retry = 0\<rparr>"

text \<open>
  The replies of the service, one for each request it will receive: the request number
  \<open>n\<close> (counted over the whole session) is answered by \<open>orc n\<close>.
\<close>

type_synonym answers = "nat \<Rightarrow> reply"

definition next_reply :: "answers \<Rightarrow> remote \<Rightarrow> reply" where
  "next_reply orc r = orc (length (requests r))"

text \<open>
  The entry of the key \<open>['todos']\<close>, the service, and the errors that were delivered to
  the observers of the entry.
\<close>

record query_state =
  data :: "todo list option"
  error :: "err option"
  isInvalidated :: bool

record client =
  cache :: query_state
  server :: remote
  surfaced :: "err list"

text \<open>
  Modelled from the spec: the cache library (\<open>@tanstack/react-query\<close>), whose code is not
  part of the repository. \<open>retryer n f\<close> runs \<open>f\<close> and, while it fails, runs it again, at
  most \<open>n\<close> more times (section 4.3: bounded retry count); the last outcome is the
  result. The number counts the runs of \<open>f\<close>.
\<close>

fun retryer ::
  "nat \<Rightarrow> (remote \<Rightarrow> (err + 'a) \<times> remote) \<Rightarrow> remote \<Rightarrow> ((err + 'a) \<times> remote) \<times> nat" where
  "retryer 0 f r = (f r, 1)"
| "retryer (Suc n) f r =
     (case f r of
        (Inr a, r') \<Rightarrow> ((Inr a, r'), 1)
      | (Inl e, r') \<Rightarrow> (case retryer n f r' of (res, k) \<Rightarrow> (res, Suc k)))"

text \<open>\<open>useQuery({ queryKey: ['todos'], queryFn: fetchTodos })\<close>\<close>

definition queryFn :: "answers \<Rightarrow> remote \<Rightarrow> (err + todo list) \<times> remote" where
  "queryFn orc r = fetchTodos (next_reply orc r) r"

text \<open>
  Modelled from the spec: a read of the entry (section 4.3, read protocol). On success the
  data is replaced and the error cleared; on failure, after the retries, the last-known data
  is kept and the error is delivered.
\<close>

definition fetchQuery :: "answers \<Rightarrow> client \<Rightarrow> client" where
  "fetchQuery orc c =
     (case retryer (queries_retry queryClient) (queryFn orc) (server c) of
        ((Inr d, r'), k) \<Rightarrow>
          c\<lparr>cache := \<lparr>data = Some d, error = None, isInvalidated = False\<rparr>, server := r'\<rparr>
      | ((Inl e, r'), k) \<Rightarrow>
          c\<lparr>cache := (cache c)\<lparr>error := Some e\<rparr>, server := r', surfaced := surfaced c @ [e]\<rparr>)"

text \<open>
  Modelled from the spec: \<open>queryClient.invalidateQueries({ queryKey: ['todos'] })\<close> marks
  the entry stale and triggers a fresh read at once (section 4.3, write protocol, step 3).
\<close>

definition invalidateQueries :: "answers \<Rightarrow> client \<Rightarrow> client" where
  "invalidateQueries orc c = fetchQuery orc (c\<lparr>cache := (cache c)\<lparr>isInvalidated := True\<rparr>\<rparr>)"

text \<open>
  The options of \<open>useMutation\<close>. \<open>onMutate\<close> is where a change would be applied to the
  cache before the service answers; none of the three mutations has one.
\<close>

record ('v, 'a) mutation_options =
  mutationFn :: "'v \<Rightarrow> answers \<Rightarrow> remote \<Rightarrow> (err + 'a) \<times> remote"
  onMutate :: "('v \<Rightarrow> client \<Rightarrow> client) option"
  onSuccess :: "(answers \<Rightarrow> client \<Rightarrow> client) option"

definition createMutation :: "(jsstring, todo) mutation_options" where
  "createMutation =
     \<lparr>mutationFn = (\<lambda>t orc r.
         createTodo t (orc (length (requests r))) (orc (Suc (length (requests r)))) r),
      onMutate = None,
      onSuccess = Some invalidateQueries\<rparr>"

definition updateMutation :: "(jsstring \<times> partial_todo, todo) mutation_options" where
  "updateMutation =
     \<lparr>mutationFn = (\<lambda>(i, updates) orc r. updateTodo i updates (next_reply orc r) r),
      onMutate = None,
      onSuccess = Some invalidateQueries\<rparr>"

definition deleteMutation :: "(jsstring, unit) mutation_options" where
  "deleteMutation =
     \<lparr>mutationFn = (\<lambda>i orc r. deleteTodo i (next_reply orc r) r),
      onMutate = None,
      onSuccess = Some invalidateQueries\<rparr>"

text \<open>
  Modelled from the spec: one mutation request (section 4.3, write protocol). \<open>pending\<close>
  is the client while the request is in flight; \<open>mutateAsync\<close> runs the function of the
  mutation under the retry option, then \<open>onSuccess\<close> if it succeeded, and gives the outcome
  to the caller, with the number of runs of the function. (\<open>mutate\<close>, which the checkbox and
  the delete button call, runs the same request; its outcome reaches the caller in the state
  of the mutation instead of a promise.)
\<close>

definition pending :: "('v, 'a) mutation_options \<Rightarrow> 'v \<Rightarrow> client \<Rightarrow> client" where
  "pending opts v c = (case onMutate opts of None \<Rightarrow> c | Some g \<Rightarrow> g v c)"

definition mutateAsync ::
  "('v, 'a) mutation_options \<Rightarrow> 'v \<Rightarrow> answers \<Rightarrow> client \<Rightarrow> (err + 'a) \<times> client \<times> nat" where
  "mutateAsync opts v orc c =
     (let c0 = pending opts v c
      in case retryer (mutations_retry queryClient) (mutationFn opts v orc) (server c0) of
           ((Inr a, r'), k) \<Rightarrow>
             (Inr a,
              (case onSuccess opts of
                 None \<Rightarrow> c0\<lparr>server := r'\<rparr>
               | Some h \<Rightarrow> h orc (c0\<lparr>server := r'\<rparr>)),
              k)
         | ((Inl e, r'), k) \<Rightarrow> (Inl e, c0\<lparr>server := r'\<rparr>, k))"

section \<open>Creates in flight together\<close>

text \<open>
  \<open>Promise.all(titlesToAdd.map((title) => createMutation.mutateAsync(title)))\<close> starts one
  \<open>createTodo\<close> for each title before any of them has an answer. Each call is suspended
  at its \<open>await\<close>s: first for the identity, then for the inserted row. The service answers
  the calls in an order of its own; a schedule is the list of its answers, each naming the
  call it resumes. Reads of the list (the invalidations) may be answered in between.
\<close>

datatype task =
    AwaitUser jsstring
  | AwaitInsert jsstring jsstring
  | Settled "err + todo"

datatype event =
    Resume nat reply
  | Read reply

fun resume :: "task \<Rightarrow> reply \<Rightarrow> remote \<Rightarrow> task \<times> remote" where
  "resume (AwaitUser t) e r =
     (case auth_getUser e r of
        (None, r') \<Rightarrow> (Settled (Inl NotAuthenticatedError), r')
      | (Some u, r') \<Rightarrow> (AwaitInsert t u, r'))"
| "resume (AwaitInsert t u) e r =
     (case insert_single e t u r of
        (Inl m, r') \<Rightarrow> (Settled (Inl (RemoteError m)), r')
      | (Inr d, r') \<Rightarrow> (Settled (Inr d), r'))"
| "resume (Settled res) e r = (Settled res, r)"

fun deliver :: "event \<Rightarrow> task list \<times> remote \<Rightarrow> task list \<times> remote" where
  "deliver (Resume i e) (ts, r) =
     (if i < length ts
      then (case resume (ts ! i) e r of (t', r') \<Rightarrow> (ts[i := t'], r'))
      else (ts, r))"
| "deliver (Read e) (ts, r) = (ts, snd (select_order e r))"

definition run :: "event list \<Rightarrow> task list \<times> remote \<Rightarrow> task list \<times> remote" where
  "run schedule s = fold deliver schedule s"

definition dispatch :: "jsstring list \<Rightarrow> task list" where
  "dispatch titles = map AwaitUser titles"

definition fulfilled :: "task \<Rightarrow> bool" where
  "fulfilled t = (case t of Settled (Inr _) \<Rightarrow> True | _ \<Rightarrow> False)"

text \<open>The rows the settled calls have returned, and what each call still owes to its title.\<close>

definition returned :: "task \<Rightarrow> todo list" where
  "returned t = (case t of Settled (Inr d) \<Rightarrow> [d] | _ \<Rightarrow> [])"

definition settled_rows :: "task list \<Rightarrow> todo list" where
  "settled_rows ts = concat (map returned ts)"

fun task_ok :: "remote \<Rightarrow> jsstring \<Rightarrow> task \<Rightarrow> bool" where
  "task_ok r0 t (AwaitUser t') = (t' = t)"
| "task_ok r0 t (AwaitInsert t' u) = (t' = t)"
| "task_ok r0 t (Settled (Inr d)) = (title d = t \<and> policy r0 d)"
| "task_ok r0 t (Settled (Inl e)) = True"

definition bulk_inv :: "jsstring list \<Rightarrow> remote \<Rightarrow> task list \<times> remote \<Rightarrow> bool" where
  "bulk_inv titles r0 s =
     (case s of (ts, r) \<Rightarrow>
        length ts = length titles \<and> uid r = uid r0
        \<and> list_all2 (task_ok r0) titles ts
        \<and> mset (rows r) = mset (rows r0) + mset (settled_rows ts))"

section \<open>Sample data\<close>

definition alice :: jsstring where
  "alice = js ''user-1''"

definition bob :: jsstring where
  "bob = js ''user-2''"

definition milk :: todo where
  "milk = \<lparr>todo_id = js ''id-1'', title = js ''Buy milk'', completed = False,
           created_at = 10, user_id = alice\<rparr>"

definition call :: todo where
  "call = \<lparr>todo_id = js ''id-2'', title = js ''Call the bank'', completed = True,
           created_at = 30, user_id = bob\<rparr>"

definition walk :: todo where
  "walk = \<lparr>todo_id = js ''id-3'', title = js ''Walk'', completed = False,
           created_at = 20, user_id = alice\<rparr>"

definition tea :: todo where
  "tea = \<lparr>todo_id = js ''id-4'', title = js ''Tea'', completed = False,
          created_at = 40, user_id = alice\<rparr>"

definition milk_again :: todo where
  "milk_again = \<lparr>todo_id = js ''id-4'', title = js ''Buy milk'', completed = False,
                 created_at = 40, user_id = alice\<rparr>"

definition sample_remote :: remote where
  "sample_remote = \<lparr>rows = [milk, call, walk], uid = Some alice, requests = []\<rparr>"

definition signed_out :: remote where
  "signed_out = \<lparr>rows = [milk, call, walk], uid = None, requests = []\<rparr>"

definition empty_remote :: remote where
  "empty_remote = \<lparr>rows = [], uid = Some alice, requests = []\<rparr>"

definition good :: "jsstring \<Rightarrow> nat \<Rightarrow> reply" where
  "good i n = \<lparr>fault = None, uuid = i, now = n\<rparr>"

definition bad :: "jsstring \<Rightarrow> reply" where
  "bad m = \<lparr>fault = Some m, uuid = [], now = 0\<rparr>"

definition sample_client :: client where
  "sample_client =
     \<lparr>cache = \<lparr>data = Some [walk], error = None, isInvalidated = False\<rparr>,
      server = sample_remote, surfaced = []\<rparr>"

definition timeout :: jsstring where
  "timeout = js ''upstream request timeout''"

definition steady :: answers where
  "steady n = good (js ''id-4'') 40"

definition down :: answers where
  "down n = bad timeout"

definition down_once :: answers where
  "down_once n = (if n = 0 then bad timeout else good (js ''id-4'') 40)"

definition down_second :: answers where
  "down_second n = (if n = 1 then bad timeout else good (js ''id-4'') 40)"

text \<open>
  Three creates dispatched as A, B, C. The service answers the identity of C, A, B, inserts
  B, serves a read, then inserts C and A.
\<close>

definition abc :: "jsstring list" where
  "abc = [js ''A'', js ''B'', js ''C'']"

definition abc_schedule :: "event list" where
  "abc_schedule =
     [Resume (Suc (Suc 0)) (good [] 1), Resume 0 (good [] 1), Resume (Suc 0) (good [] 1),
      Resume (Suc 0) (good (js ''id-b'') 2), Read (good [] 3),
      Resume (Suc (Suc 0)) (good (js ''id-c'') 4), Resume 0 (good (js ''id-a'') 5)]"

definition row_a :: todo where
  "row_a = \<lparr>todo_id = js ''id-a'', title = js ''A'', completed = False, created_at = 5,
            user_id = alice\<rparr>"

definition row_b :: todo where
  "row_b = \<lparr>todo_id = js ''id-b'', title = js ''B'', completed = False, created_at = 2,
            user_id = alice\<rparr>"

definition row_c :: todo where
  "row_c = \<lparr>todo_id = js ''id-c'', title = js ''C'', completed = False, created_at = 4,
            user_id = alice\<rparr>"

definition abc_remote :: remote where
  "abc_remote =
     \<lparr>rows = [row_b, row_c, row_a], uid = Some alice,
      requests = [GetUser, GetUser, GetUser, Insert (js ''B'') alice, Select,
                  Insert (js ''C'') alice, Insert (js ''A'') alice]\<rparr>"

definition no_key :: env where
  "no_key = \<lparr>VITE_OPENAI_API_KEY = None, VITE_OPENAI_API_BASE = None\<rparr>"

definition with_key :: env where
  "with_key = \<lparr>VITE_OPENAI_API_KEY = Some (js '' sk-test ''), VITE_OPENAI_API_BASE = None\<rparr>"

text \<open>
  Two completion texts, \<open>{"suggestions":[{"title":"Stretch"}]}\<close> and \<open>{"tasks":[]}\<close>, and
  what \<open>JSON.parse\<close> makes of them; \<open>parse_sample\<close> is \<open>JSON.parse\<close> on the texts of the
  examples (it rejects every other text, as \<open>JSON.parse\<close> rejects the wrapped ones used).
\<close>

definition dq :: jsstring where
  "dq = [0x22]"

definition stretch_body :: jsstring where
  "stretch_body = dq @ js ''suggestions'' @ dq @ js '':[{'' @ dq @ js ''title'' @ dq @ js '':''
                  @ dq @ js ''Stretch'' @ dq @ js ''}]''"

definition tasks_body :: jsstring where
  "tasks_body = dq @ js ''tasks'' @ dq @ js '':[]''"

definition parse_sample :: "jsstring \<Rightarrow> json option" where
  "parse_sample s =
     (if s = LBRACE # stretch_body @ [RBRACE]
      then Some (JObject [(js ''suggestions'',
                           JArray [JObject [(js ''title'', JString (js ''Stretch''))]])])
      else if s = LBRACE # tasks_body @ [RBRACE]
      then Some (JObject [(js ''tasks'', JArray [])])
      else None)"

section \<open>Properties of the data access layer\<close>

lemma order_desc_sorted:
  "sorted_wrt (\<lambda>a b. created_at b \<le> created_at a) (order_desc ts)"
proof -
  have "sorted (map created_at (sort_key created_at ts))"
    by (rule sorted_sort_key)
  then have "sorted_wrt (\<lambda>a b. created_at a \<le> created_at b) (sort_key created_at ts)"
    by (simp add: sorted_map)
  then show ?thesis
    by (simp add: order_desc_def sorted_wrt_rev)
qed

lemma order_desc_mset: "mset (order_desc ts) = mset ts"
  by (simp add: order_desc_def)

lemmas sample_defs = sample_remote_def signed_out_def empty_remote_def milk_def call_def walk_def
  alice_def bob_def good_def bad_def js_def

text \<open>
  Claim C7. A successful \<open>fetchTodos\<close> returns exactly the rows of the table that the
  current identity owns, newest first (\<open>created_at\<close> descending); when the service call
  errors, it fails with the error of the service, which carries its message; and it succeeds
  whenever the service does not fail.
\<close>

theorem fetchTodos_owned_newest_first:
  "(fetchTodos e r = (Inr ts, r') \<longrightarrow>
      mset ts = filter_mset (\<lambda>t. uid r = Some (user_id t)) (mset (rows r))
      \<and> sorted_wrt (\<lambda>a b. created_at b \<le> created_at a) ts)
   \<and> (fault e = Some m \<longrightarrow> fst (fetchTodos e r) = Inl (RemoteError m))
   \<and> (fault e = None \<longrightarrow> (\<exists>ts. fst (fetchTodos e r) = Inr ts))"
  by (auto simp: fetchTodos_def select_order_def order_desc_sorted order_desc_mset policy_def
        split: option.splits)

theorem fetchTodos_owned_newest_first_witness:
  "fetchTodos (good [] 40) sample_remote = (Inr [walk, milk], received Select sample_remote)
   \<and> mset [walk, milk] = filter_mset (\<lambda>t. uid sample_remote = Some (user_id t)) (mset (rows sample_remote))
   \<and> sorted_wrt (\<lambda>a b. created_at b \<le> created_at a) [walk, milk]
   \<and> fault (bad (js ''timeout'')) = Some (js ''timeout'')
   \<and> fst (fetchTodos (bad (js ''timeout'')) sample_remote) = Inl (RemoteError (js ''timeout''))"
proof -
  have run: "fetchTodos (good [] 40) sample_remote = (Inr [walk, milk], received Select sample_remote)"
    by (simp add: fetchTodos_def select_order_def order_desc_def policy_def received_def sample_defs)
  have down: "fault (bad (js ''timeout'')) = Some (js ''timeout'')"
    by (simp add: bad_def)
  show ?thesis
    using run down
      fetchTodos_owned_newest_first[of "good [] 40" sample_remote "[walk, milk]" "received Select sample_remote"]
      fetchTodos_owned_newest_first[of "bad (js ''timeout'')" sample_remote _ _ "js ''timeout''"]
    by simp
qed

text \<open>
  Claim C6. \<open>createTodo\<close> asks the service for the identity at each call (its first
  request is always \<open>GetUser\<close>; no stored identity is an argument). With no identity it
  fails with \<open>NotAuthenticatedError\<close> and that request is the only one: no insert is sent
  and the table is unchanged. When it succeeds, the returned row is the inserted one, with the
  given title and the id, \<open>created_at\<close> and \<open>user_id\<close> the service assigned.
\<close>

theorem createTodo_checks_identity:
  "(uid r = None \<longrightarrow> createTodo t e1 e2 r = (Inl NotAuthenticatedError, received GetUser r))
   \<and> take (Suc (length (requests r))) (requests (snd (createTodo t e1 e2 r))) = requests r @ [GetUser]
   \<and> (createTodo t e1 e2 r = (Inr d, r') \<longrightarrow>
        uid r = Some (user_id d) \<and> title d = t \<and> todo_id d = uuid e2 \<and> created_at d = now e2
        \<and> completed d = False \<and> rows r' = rows r @ [d]
        \<and> requests r' = requests r @ [GetUser, Insert t (user_id d)])
   \<and> (uid r = Some u \<and> fault e1 = None \<and> fault e2 = None \<and> uuid e2 \<notin> todo_id ` set (rows r) \<longrightarrow>
        (\<exists>d. fst (createTodo t e1 e2 r) = Inr d))"
  by (auto simp: createTodo_def auth_getUser_def insert_single_def received_def policy_def Let_def
        split: option.splits if_splits sum.splits prod.splits)

theorem createTodo_checks_identity_witness:
  "uid signed_out = None
   \<and> createTodo (js ''Tea'') (good [] 40) (good (js ''id-4'') 40) signed_out
       = (Inl NotAuthenticatedError, received GetUser signed_out)
   \<and> createTodo (js ''Tea'') (good [] 40) (good (js ''id-4'') 40) sample_remote
       = (Inr tea, \<lparr>rows = [milk, call, walk, tea], uid = Some alice,
                    requests = [GetUser, Insert (js ''Tea'') alice]\<rparr>)
   \<and> uid sample_remote = Some (user_id tea) \<and> title tea = js ''Tea''
   \<and> todo_id tea = uuid (good (js ''id-4'') 40) \<and> created_at tea = now (good (js ''id-4'') 40)
   \<and> completed tea = False"
proof -
  have out: "uid signed_out = None"
    by (simp add: signed_out_def)
  have run: "createTodo (js ''Tea'') (good [] 40) (good (js ''id-4'') 40) sample_remote
       = (Inr tea, \<lparr>rows = [milk, call, walk, tea], uid = Some alice,
                    requests = [GetUser, Insert (js ''Tea'') alice]\<rparr>)"
    by (simp add: createTodo_def auth_getUser_def insert_single_def received_def policy_def
          Let_def tea_def sample_defs)
  show ?thesis
    using out run
      createTodo_checks_identity[of signed_out "js ''Tea''" "good [] 40" "good (js ''id-4'') 40"]
      createTodo_checks_identity[of sample_remote "js ''Tea''" "good [] 40" "good (js ''id-4'') 40" tea
        "\<lparr>rows = [milk, call, walk, tea], uid = Some alice, requests = [GetUser, Insert (js ''Tea'') alice]\<rparr>"]
    by simp
qed

lemma update_single_Inr:
  assumes "update_single e i u r = (Inr d, r')"
  shows "\<exists>t. filter (\<lambda>t. policy r t \<and> todo_id t = i \<and> u \<noteq> no_updates) (rows r) = [t]
             \<and> d = apply_updates u t
             \<and> rows r' = map (\<lambda>t. if policy r t \<and> todo_id t = i \<and> u \<noteq> no_updates
                                   then apply_updates u t else t) (rows r)"
  using assms
  by (auto simp: update_single_def received_def Let_def map_eq_Cons_conv
        split: option.splits if_splits list.splits)

lemma apply_completed:
  "apply_updates (no_updates\<lparr>upd_completed := Some b\<rparr>) t = t\<lparr>completed := b\<rparr>"
  by (simp add: apply_updates_def no_updates_def)

lemma updateTodo_requests:
  "requests (snd (updateTodo i u e r)) = requests r @ [Update i u]"
  by (auto simp: updateTodo_def update_single_def received_def Let_def
        split: option.splits list.splits sum.splits prod.splits)

lemma updateTodo_completed_row:
  assumes "updateTodo i (no_updates\<lparr>upd_completed := Some b\<rparr>) e r = (Inr d, r')"
  shows "\<exists>t \<in> set (rows r). todo_id t = i \<and> uid r = Some (user_id t) \<and> d = t\<lparr>completed := b\<rparr>"
proof -
  let ?u = "no_updates\<lparr>upd_completed := Some b\<rparr>"
  from assms have "update_single e i ?u r = (Inr d, r')"
    by (auto simp: updateTodo_def split: prod.splits sum.splits)
  then obtain t where f: "filter (\<lambda>t. policy r t \<and> todo_id t = i \<and> ?u \<noteq> no_updates) (rows r) = [t]"
    and d: "d = apply_updates ?u t"
    using update_single_Inr by blast
  from f have "t \<in> set (filter (\<lambda>t. policy r t \<and> todo_id t = i \<and> ?u \<noteq> no_updates) (rows r))"
    by simp
  then have "t \<in> set (rows r)" "policy r t" "todo_id t = i" by auto
  with d show ?thesis by (auto simp: apply_completed policy_def)
qed

lemma filter_distinct_key:
  "distinct (map f xs) \<Longrightarrow> t \<in> set xs \<Longrightarrow> filter (\<lambda>x. f x = f t) xs = [t]"
proof (induction xs)
  case Nil
  then show ?case by simp
next
  case (Cons a xs)
  show ?case
  proof (cases "a = t")
    case True
    with Cons.prems have "f t \<notin> f ` set xs" by simp
    then have "\<forall>x \<in> set xs. f x \<noteq> f t" by (metis image_eqI)
    then have "filter (\<lambda>x. f x = f t) xs = []" by (simp add: filter_empty_conv)
    with True show ?thesis by simp
  next
    case False
    with Cons.prems have "t \<in> set xs" "f a \<noteq> f t" by auto
    with Cons show ?thesis by simp
  qed
qed

lemma updateTodo_completed_succeeds:
  assumes "fault e = None" and "distinct (map todo_id (rows r))"
    and "t \<in> set (rows r)" and "todo_id t = i" and "policy r t"
  shows "fst (updateTodo i (no_updates\<lparr>upd_completed := Some b\<rparr>) e r) = Inr (t\<lparr>completed := b\<rparr>)"
proof -
  let ?u = "no_updates\<lparr>upd_completed := Some b\<rparr>"
  let ?hit = "\<lambda>x. policy r x \<and> todo_id x = i \<and> ?u \<noteq> no_updates"
  have ne: "?u \<noteq> no_updates"
    by (simp add: no_updates_def)
  have "filter (\<lambda>x. todo_id x = todo_id t) (rows r) = [t]"
    by (rule filter_distinct_key[OF assms(2,3)])
  then have "filter (policy r) (filter (\<lambda>x. todo_id x = i) (rows r)) = [t]"
    using assms(4,5) by simp
  then have hit: "filter ?hit (rows r) = [t]"
    using ne by (simp add: conj_commute)
  have ids: "(todo_id \<circ> (\<lambda>x. if policy r x \<and> todo_id x = i then apply_updates ?u x else x))
      = todo_id"
    by (auto simp: fun_eq_iff apply_completed)
  have pol: "policy r (x\<lparr>completed := b\<rparr>) = policy r x" for x
    by (simp add: policy_def)
  from hit have hit': "filter (\<lambda>x. policy r x \<and> todo_id x = i) (rows r) = [t]"
    using ne by simp
  show ?thesis
    using assms(1,2) hit'
    by (simp add: updateTodo_def update_single_def Let_def apply_completed ne ids pol)
qed

text \<open>
  Claim C5. The payloads passed to \<open>updateTodo\<close>, that of the checkbox and that of
  \<open>handleSaveEdit\<close>, provide no field outside \<open>{title?, completed?}\<close>. \<open>updateTodo\<close> sends
  the service exactly the payload it was given, for the given id. For the payload of the
  checkbox, \<open>{completed: b}\<close>, a successful call returns the row of that id owned by the
  identity with only \<open>completed\<close> changed: the title is the prior one. The call succeeds
  whenever the service does not fail and the identity owns a row of that id.
\<close>

theorem updateTodo_completed_keeps_title:
  "title_completed_only (snd (toggle i b))
   \<and> (handleSaveEdit i editTitle = Some (j, v) \<longrightarrow> title_completed_only v)
   \<and> requests (snd (updateTodo i u e r)) = requests r @ [Update i u]
   \<and> snd (toggle i b) = no_updates\<lparr>upd_completed := Some b\<rparr>
   \<and> (updateTodo i (snd (toggle i b)) e r = (Inr d, r') \<longrightarrow>
        (\<exists>t \<in> set (rows r). todo_id t = i \<and> uid r = Some (user_id t)
             \<and> d = t\<lparr>completed := b\<rparr> \<and> title d = title t))
   \<and> (fault e = None \<and> distinct (map todo_id (rows r)) \<and> t \<in> set (rows r)
        \<and> todo_id t = i \<and> uid r = Some (user_id t) \<longrightarrow>
        fst (updateTodo i (snd (toggle i b)) e r) = Inr (t\<lparr>completed := b\<rparr>))"
proof -
  have a: "title_completed_only (snd (toggle i b))"
    by (simp add: title_completed_only_def toggle_def no_updates_def)
  have b: "handleSaveEdit i editTitle = Some (j, v) \<longrightarrow> title_completed_only v"
    by (auto simp: title_completed_only_def handleSaveEdit_def no_updates_def split: if_splits)
  have c: "requests (snd (updateTodo i u e r)) = requests r @ [Update i u]"
    by (rule updateTodo_requests)
  have d0: "snd (toggle i b) = no_updates\<lparr>upd_completed := Some b\<rparr>"
    by (simp add: toggle_def)
  have d: "updateTodo i (snd (toggle i b)) e r = (Inr d, r') \<longrightarrow>
        (\<exists>t \<in> set (rows r). todo_id t = i \<and> uid r = Some (user_id t)
             \<and> d = t\<lparr>completed := b\<rparr> \<and> title d = title t)"
  proof
    assume "updateTodo i (snd (toggle i b)) e r = (Inr d, r')"
    then have "updateTodo i (no_updates\<lparr>upd_completed := Some b\<rparr>) e r = (Inr d, r')"
      by (simp only: d0)
    from updateTodo_completed_row[OF this]
    show "\<exists>t \<in> set (rows r). todo_id t = i \<and> uid r = Some (user_id t)
             \<and> d = t\<lparr>completed := b\<rparr> \<and> title d = title t"
      by auto
  qed
  have f: "fault e = None \<and> distinct (map todo_id (rows r)) \<and> t \<in> set (rows r)
        \<and> todo_id t = i \<and> uid r = Some (user_id t) \<longrightarrow>
        fst (updateTodo i (snd (toggle i b)) e r) = Inr (t\<lparr>completed := b\<rparr>)"
    using updateTodo_completed_succeeds[of e r t i b] by (simp add: d0 policy_def)
  show ?thesis
    by (intro conjI) (rule a b c d0 d f)+
qed

theorem updateTodo_completed_keeps_title_witness:
  "handleSaveEdit (js ''id-1'') (js '' Tea '')
     = Some (js ''id-1'', no_updates\<lparr>upd_title := Some (js ''Tea'')\<rparr>)
   \<and> title_completed_only (no_updates\<lparr>upd_title := Some (js ''Tea'')\<rparr>)
   \<and> updateTodo (js ''id-1'') (snd (toggle (js ''id-1'') True)) (good [] 40) sample_remote
     = (Inr (milk\<lparr>completed := True\<rparr>),
        \<lparr>rows = [milk\<lparr>completed := True\<rparr>, call, walk], uid = Some alice,
         requests = [Update (js ''id-1'') (no_updates\<lparr>upd_completed := Some True\<rparr>)]\<rparr>)
   \<and> (\<exists>t \<in> set (rows sample_remote). todo_id t = js ''id-1'' \<and> uid sample_remote = Some (user_id t)
         \<and> milk\<lparr>completed := True\<rparr> = t\<lparr>completed := True\<rparr>
         \<and> title (milk\<lparr>completed := True\<rparr>) = title t)
   \<and> fault (good [] 40) = None \<and> distinct (map todo_id (rows sample_remote))
   \<and> milk \<in> set (rows sample_remote) \<and> todo_id milk = js ''id-1''
   \<and> uid sample_remote = Some (user_id milk)
   \<and> fst (updateTodo (js ''id-1'') (snd (toggle (js ''id-1'') True)) (good [] 40) sample_remote)
       = Inr (milk\<lparr>completed := True\<rparr>)"
proof -
  let ?r' = "\<lparr>rows = [milk\<lparr>completed := True\<rparr>, call, walk], uid = Some alice,
         requests = [Update (js ''id-1'') (no_updates\<lparr>upd_completed := Some True\<rparr>)]\<rparr>"
  have edit: "handleSaveEdit (js ''id-1'') (js '' Tea '')
     = Some (js ''id-1'', no_updates\<lparr>upd_title := Some (js ''Tea'')\<rparr>)"
    by (simp add: handleSaveEdit_def trim_def isWhiteSpace_def js_def)
  have run: "updateTodo (js ''id-1'') (snd (toggle (js ''id-1'') True)) (good [] 40) sample_remote
     = (Inr (milk\<lparr>completed := True\<rparr>), ?r')"
    by (simp add: updateTodo_def update_single_def apply_updates_def toggle_def no_updates_def
          received_def policy_def Let_def sample_defs)
  have h1: "fault (good [] 40) = None"
    by (simp add: good_def)
  have h2: "distinct (map todo_id (rows sample_remote))"
    by (simp add: sample_defs)
  have h3: "milk \<in> set (rows sample_remote)" and h4: "todo_id milk = js ''id-1''"
    and h5: "uid sample_remote = Some (user_id milk)"
    by (simp_all add: sample_remote_def milk_def)
  note r = updateTodo_completed_keeps_title[where i = "js ''id-1''" and b = True
      and editTitle = "js '' Tea ''" and j = "js ''id-1''"
      and v = "no_updates\<lparr>upd_title := Some (js ''Tea'')\<rparr>"
      and e = "good [] 40" and r = sample_remote and d = "milk\<lparr>completed := True\<rparr>"
      and r' = ?r' and t = milk]
  note c1 = r[THEN conjunct2, THEN conjunct1, rule_format, OF edit]
  note c2 = r[THEN conjunct2, THEN conjunct2, THEN conjunct2, THEN conjunct2, THEN conjunct1,
      rule_format, OF run]
  note c3 = r[THEN conjunct2, THEN conjunct2, THEN conjunct2, THEN conjunct2, THEN conjunct2,
      rule_format, OF conjI[OF h1 conjI[OF h2 conjI[OF h3 conjI[OF h4 h5]]]]]
  show ?thesis
    by (intro conjI) (rule edit c1 run c2 h1 h2 h3 h4 h5 c3)+
qed

section \<open>Properties of the AI gateway\<close>

lemma indexOf_absent: "c \<notin> set xs \<Longrightarrow> indexOf xs c = -1"
  by (induction xs) (auto simp: Let_def)


lemma lastIndexOf_absent: "c \<notin> set xs \<Longrightarrow> lastIndexOf xs c = -1"
  by (simp add: lastIndexOf_def indexOf_absent)









lemma parse_completion_no_braces:
  assumes "JSON_parse c = None" "LBRACE \<notin> set c \<or> RBRACE \<notin> set c"
  shows "parse_completion JSON_parse c = Inl ParseError"
  using assms
  by (auto simp: parse_completion_def parse_content_def Let_def indexOf_absent
        lastIndexOf_absent)


lemmas text_defs = js_def LBRACE_def RBRACE_def dq_def stretch_body_def tasks_body_def

text \<open>
  Claim C3. When the credential is not configured (the variable is unset, or blank once
  trimmed), \<open>generateTodosFromPrompt\<close> fails with \<open>NotConfiguredError\<close> for every prompt
  and every list of existing titles, whatever the network would answer, and sends no request.
\<close>

theorem not_configured_sends_nothing:
  assumes "VITE_OPENAI_API_KEY v = None \<or> VITE_OPENAI_API_KEY v = Some k \<and> trim k = []"
  shows "generateTodosFromPrompt JSON_parse v fetch prompt existingTitles
           = (Inl NotConfiguredError, [])"
  using assms by (auto simp: generateTodosFromPrompt_def openAiApiKey_def)

theorem not_configured_sends_nothing_witness:
  "VITE_OPENAI_API_KEY no_key = None
   \<and> generateTodosFromPrompt parse_sample no_key (completes_with (js ''{}''))
        (js ''plan my day'') [js ''Buy milk''] = (Inl NotConfiguredError, [])"
proof -
  have unset: "VITE_OPENAI_API_KEY no_key = None"
    by (simp add: no_key_def)
  show ?thesis
    using unset not_configured_sends_nothing[of no_key _ parse_sample "completes_with (js ''{}'')"
        "js ''plan my day''" "[js ''Buy milk'']"]
    by simp
qed




text \<open>
  Claim C10. When the endpoint answers with success and the completion text parses as an
  object with no \<open>suggestions\<close> property, or with \<open>suggestions: null\<close>, the gateway returns
  the empty list; it does not fail with \<open>ParseError\<close>.
\<close>

theorem missing_suggestions_is_empty_list:
  assumes "openAiApiKey v \<noteq> []"
    and "fetch (completion_request v prompt existingTitles) = Some response"
    and "ok response" and "json_body response = Some j" and "first_content j = Some c"
    and "c \<noteq> []"
    and "JSON_parse c = Some (JObject kvs)"
    and "map_of kvs (js ''suggestions'') = None \<or> map_of kvs (js ''suggestions'') = Some JNull"
  shows "generateTodosFromPrompt JSON_parse v fetch prompt existingTitles
           = (Inr (JArray []), [completion_request v prompt existingTitles])"
  using assms
  by (auto simp: generateTodosFromPrompt_def Let_def parse_completion_def parse_content_def)


theorem missing_suggestions_is_empty_list_witness:
  "openAiApiKey with_key \<noteq> []
   \<and> completes_with (LBRACE # tasks_body @ [RBRACE]) (completion_request with_key (js ''plan my day'') [])
       = Some (ok_response (LBRACE # tasks_body @ [RBRACE]))
   \<and> ok (ok_response (LBRACE # tasks_body @ [RBRACE]))
   \<and> LBRACE # tasks_body @ [RBRACE] \<noteq> []
   \<and> parse_sample (LBRACE # tasks_body @ [RBRACE]) = Some (JObject [(js ''tasks'', JArray [])])
   \<and> map_of [(js ''tasks'', JArray [])] (js ''suggestions'') = None
   \<and> generateTodosFromPrompt parse_sample with_key (completes_with (LBRACE # tasks_body @ [RBRACE]))
         (js ''plan my day'') []
       = (Inr (JArray []), [completion_request with_key (js ''plan my day'') []])"
proof -
  let ?c = "LBRACE # tasks_body @ [RBRACE]"
  have h1: "openAiApiKey with_key \<noteq> []"
    by (simp add: openAiApiKey_def with_key_def trim_def isWhiteSpace_def js_def)
  have h2: "completes_with ?c (completion_request with_key (js ''plan my day'') [])
       = Some (ok_response ?c)"
    by (simp add: completes_with_def)
  have h3: "ok (ok_response ?c)"
    by (simp add: ok_response_def)
  have h4: "json_body (ok_response ?c)
       = Some \<lparr>choices = Some [\<lparr>message = Some \<lparr>content = Some ?c\<rparr>\<rparr>]\<rparr>"
    by (simp add: ok_response_def)
  have h5: "first_content \<lparr>choices = Some [\<lparr>message = Some \<lparr>content = Some ?c\<rparr>\<rparr>]\<rparr> = Some ?c"
    by (simp add: first_content_def)
  have h6: "?c \<noteq> []"
    by simp
  have h7: "parse_sample ?c = Some (JObject [(js ''tasks'', JArray [])])"
    by (simp add: parse_sample_def text_defs)
  have h8: "map_of [(js ''tasks'', JArray [])] (js ''suggestions'') = None"
    by (simp add: js_def)
  note r = missing_suggestions_is_empty_list[where v = with_key and fetch = "completes_with ?c"
      and prompt = "js ''plan my day''" and existingTitles = "[]" and JSON_parse = parse_sample
      and c = ?c and kvs = "[(js ''tasks'', JArray [])]", OF h1 h2 h3 h4 h5 h6 h7 disjI1[OF h8]]
  show ?thesis
    by (intro conjI) (rule h1 h2 h3 h6 h7 h8 r)+
qed

section \<open>Properties of the validation\<close>

lemma handleSaveEdit_rejects_blank: "trim t = [] \<Longrightarrow> handleSaveEdit i t = None"
  by (simp add: handleSaveEdit_def)

lemma handleSaveEdit_title_not_blank:
  "handleSaveEdit i t = Some (j, u) \<Longrightarrow> upd_title u = Some (trim t) \<and> trim t \<noteq> []"
  by (auto simp: handleSaveEdit_def split: if_splits)

lemma titlesToAdd_not_blank: "t \<in> set (titlesToAdd sel sugg) \<Longrightarrow> trim t \<noteq> []"
  by (simp add: titlesToAdd_def)

lemma onSubmit_not_empty: "onSubmit t = Some t' \<Longrightarrow> t' = t \<and> t \<noteq> []"
  by (auto simp: onSubmit_def todoSchema_def split: if_splits)

text \<open>
  Claim C8 at a title of three spaces. The title is blank; the edit command and the
  selection of suggestions drop it, but the schema of the create form accepts it, \<open>onSubmit\<close>
  passes it on, and \<open>createTodo\<close> stores a row with that title.
\<close>

theorem blank_title_passes_create_form:
  "trim (js ''   '') = []
   \<and> onSubmit (js ''   '') = Some (js ''   '')
   \<and> handleSaveEdit (js ''id-1'') (js ''   '') = None
   \<and> titlesToAdd [0] [\<lparr>sugg_title = js ''   '', reason = None\<rparr>] = []
   \<and> fst (createTodo (js ''   '') (good [] 40) (good (js ''id-4'') 40) sample_remote)
       = Inr (tea\<lparr>title := js ''   ''\<rparr>)"
  by (simp add: trim_def isWhiteSpace_def onSubmit_def todoSchema_def handleSaveEdit_def
        titlesToAdd_def createTodo_def auth_getUser_def insert_single_def received_def
        policy_def Let_def tea_def sample_remote_def milk_def call_def walk_def alice_def
        bob_def good_def js_def)

section \<open>Properties of the query cache\<close>

lemma retryer_once:
  "retryer (Suc 0) f r =
     (case f r of (Inr a, r') \<Rightarrow> ((Inr a, r'), 1) | (Inl e, r') \<Rightarrow> (f r', 2))"
  by (simp split: prod.splits sum.splits)

lemma queryFn_fault:
  "fault (orc (length (requests r))) = Some m \<Longrightarrow>
     queryFn orc r = (Inl (RemoteError m), received Select r)"
  by (simp add: queryFn_def next_reply_def fetchTodos_def select_order_def)

lemma queryFn_ok:
  "fault (orc (length (requests r))) = None \<Longrightarrow>
     queryFn orc r = (Inr (order_desc (filter (policy r) (rows r))), received Select r)"
  by (simp add: queryFn_def next_reply_def fetchTodos_def select_order_def)

lemma received_simps [simp]:
  "requests (received q r) = requests r @ [q]"
  "rows (received q r) = rows r"
  "uid (received q r) = uid r"
  by (simp_all add: received_def)

lemma policy_received [simp]: "policy (received q r) = policy r"
  by (simp add: policy_def fun_eq_iff)

lemma fetchQuery_first_ok:
  assumes "fault (orc (length (requests (server c)))) = None"
  shows "fetchQuery orc c =
     c\<lparr>cache := \<lparr>data = Some (order_desc (filter (policy (server c)) (rows (server c)))),
                  error = None, isInvalidated = False\<rparr>,
       server := received Select (server c)\<rparr>"
  using assms by (simp add: fetchQuery_def queryClient_def retryer_once queryFn_ok)

lemma fetchQuery_retry_ok:
  assumes "fault (orc (length (requests (server c)))) = Some m1"
    and "fault (orc (Suc (length (requests (server c))))) = None"
  shows "fetchQuery orc c =
     c\<lparr>cache := \<lparr>data = Some (order_desc (filter (policy (server c)) (rows (server c)))),
                  error = None, isInvalidated = False\<rparr>,
       server := received Select (received Select (server c))\<rparr>"
  using assms by (simp add: fetchQuery_def queryClient_def retryer_once queryFn_ok queryFn_fault)

lemma fetchQuery_fail:
  assumes "fault (orc (length (requests (server c)))) = Some m1"
    and "fault (orc (Suc (length (requests (server c))))) = Some m2"
  shows "fetchQuery orc c =
     c\<lparr>cache := (cache c)\<lparr>error := Some (RemoteError m2)\<rparr>,
       server := received Select (received Select (server c)),
       surfaced := surfaced c @ [RemoteError m2]\<rparr>"
  using assms by (simp add: fetchQuery_def queryClient_def retryer_once queryFn_fault)

lemma mutateAsync_plain:
  assumes "onMutate opts = None" "onSuccess opts = Some invalidateQueries"
  shows "mutateAsync opts v orc c =
     (case mutationFn opts v orc (server c) of
        (Inr a, r') \<Rightarrow> (Inr a, invalidateQueries orc (c\<lparr>server := r'\<rparr>), 1)
      | (Inl e, r') \<Rightarrow> (Inl e, c\<lparr>server := r'\<rparr>, 1))"
  using assms
  by (simp add: mutateAsync_def pending_def queryClient_def split: prod.splits sum.splits)

lemma mutateAsync_runs_once:
  "snd (snd (mutateAsync opts v orc c)) = 1"
  by (simp add: mutateAsync_def queryClient_def Let_def split: prod.splits sum.splits)


lemma fetchQuery_reads:
  "requests (server (fetchQuery orc c)) = requests (server c) @ [Select]
   \<or> requests (server (fetchQuery orc c)) = requests (server c) @ [Select, Select]"
proof (cases "fault (orc (length (requests (server c))))")
  case None
  then show ?thesis by (simp add: fetchQuery_first_ok)
next
  case (Some m1)
  show ?thesis
  proof (cases "fault (orc (Suc (length (requests (server c)))))")
    case None
    with Some show ?thesis by (simp add: fetchQuery_retry_ok)
  next
    case (Some m2)
    with \<open>fault (orc (length (requests (server c)))) = Some m1\<close> show ?thesis
      by (simp add: fetchQuery_fail)
  qed
qed

lemma createMutation_run:
  "mutateAsync createMutation t orc c =
     (case createTodo t (orc (length (requests (server c))))
             (orc (Suc (length (requests (server c))))) (server c) of
        (Inl e, r') \<Rightarrow> (Inl e, c\<lparr>server := r'\<rparr>, 1)
      | (Inr d, r') \<Rightarrow>
          (Inr d, fetchQuery orc (c\<lparr>server := r', cache := (cache c)\<lparr>isInvalidated := True\<rparr>\<rparr>), 1))"
  by (simp add: mutateAsync_plain createMutation_def invalidateQueries_def
        split: prod.splits sum.splits)

lemma updateMutation_run:
  "mutateAsync updateMutation (i, u) orc c =
     (case updateTodo i u (orc (length (requests (server c)))) (server c) of
        (Inl e, r') \<Rightarrow> (Inl e, c\<lparr>server := r'\<rparr>, 1)
      | (Inr d, r') \<Rightarrow>
          (Inr d, fetchQuery orc (c\<lparr>server := r', cache := (cache c)\<lparr>isInvalidated := True\<rparr>\<rparr>), 1))"
  by (simp add: mutateAsync_plain updateMutation_def invalidateQueries_def next_reply_def
        split: prod.splits sum.splits)

lemma deleteMutation_run:
  "mutateAsync deleteMutation i orc c =
     (case deleteTodo i (orc (length (requests (server c)))) (server c) of
        (Inl e, r') \<Rightarrow> (Inl e, c\<lparr>server := r'\<rparr>, 1)
      | (Inr d, r') \<Rightarrow>
          (Inr d, fetchQuery orc (c\<lparr>server := r', cache := (cache c)\<lparr>isInvalidated := True\<rparr>\<rparr>), 1))"
  by (simp add: mutateAsync_plain deleteMutation_def invalidateQueries_def next_reply_def
        split: prod.splits sum.splits)

text \<open>
  Claim C1. For each of the three mutations: nothing is applied to the client while the
  request is pending (there is no \<open>onMutate\<close>); the function of the data access layer runs
  once (the count is 1 on both branches); when it fails, the caller gets its error and the
  client keeps its cache, only the service has seen the request; when it succeeds, the caller
  gets its value, the entry is marked stale and read again, which sends the service at least
  one \<open>Select\<close>.
\<close>

theorem mutations_follow_write_protocol:
  "pending createMutation t c = c \<and> pending updateMutation (i, u) c = c
   \<and> pending deleteMutation i c = c
   \<and> mutateAsync createMutation t orc c =
       (case createTodo t (orc (length (requests (server c))))
               (orc (Suc (length (requests (server c))))) (server c) of
          (Inl e, r') \<Rightarrow> (Inl e, c\<lparr>server := r'\<rparr>, 1)
        | (Inr d, r') \<Rightarrow>
            (Inr d,
             fetchQuery orc (c\<lparr>server := r', cache := (cache c)\<lparr>isInvalidated := True\<rparr>\<rparr>), 1))
   \<and> mutateAsync updateMutation (i, u) orc c =
       (case updateTodo i u (orc (length (requests (server c)))) (server c) of
          (Inl e, r') \<Rightarrow> (Inl e, c\<lparr>server := r'\<rparr>, 1)
        | (Inr d, r') \<Rightarrow>
            (Inr d,
             fetchQuery orc (c\<lparr>server := r', cache := (cache c)\<lparr>isInvalidated := True\<rparr>\<rparr>), 1))
   \<and> mutateAsync deleteMutation i orc c =
       (case deleteTodo i (orc (length (requests (server c)))) (server c) of
          (Inl e, r') \<Rightarrow> (Inl e, c\<lparr>server := r'\<rparr>, 1)
        | (Inr d, r') \<Rightarrow>
            (Inr d,
             fetchQuery orc (c\<lparr>server := r', cache := (cache c)\<lparr>isInvalidated := True\<rparr>\<rparr>), 1))
   \<and> (requests (server (fetchQuery orc c)) = requests (server c) @ [Select]
        \<or> requests (server (fetchQuery orc c)) = requests (server c) @ [Select, Select])"
proof -
  have p: "pending createMutation t c = c" "pending updateMutation (i, u) c = c"
    "pending deleteMutation i c = c"
    by (simp_all add: pending_def createMutation_def updateMutation_def deleteMutation_def)
  show ?thesis
    by (intro conjI) (rule p createMutation_run updateMutation_run deleteMutation_run
        fetchQuery_reads)+
qed

lemma updateTodo_fault:
  "fault e = Some m \<Longrightarrow> updateTodo i u e r = (Inl (RemoteError m), received (Update i u) r)"
  by (simp add: updateTodo_def update_single_def Let_def)

lemma deleteTodo_fault:
  "fault e = Some m \<Longrightarrow> deleteTodo i e r = (Inl (RemoteError m), received (Delete i) r)"
  by (simp add: deleteTodo_def delete_eq_def Let_def)

lemma createTodo_fault:
  "uid r = Some usr \<Longrightarrow> fault e1 = None \<Longrightarrow> fault e2 = Some m \<Longrightarrow>
     createTodo t e1 e2 r = (Inl (RemoteError m), received (Insert t usr) (received GetUser r))"
  by (simp add: createTodo_def auth_getUser_def insert_single_def Let_def)

text \<open>
  Claim C2. A read whose first request fails and whose second succeeds ends with the fresh
  list and no error, and nothing is delivered to the observers; a read whose two requests fail
  ends with one error, the last one, delivered once, the data kept, and no third request. The
  retry option is 1 for queries and 0 for mutations: a mutation whose request fails gives the
  error to the caller after that single request.
\<close>

theorem read_retried_once_writes_never:
  "(fault (orc (length (requests (server c)))) = Some m1
      \<and> fault (orc (Suc (length (requests (server c))))) = None \<longrightarrow>
        error (cache (fetchQuery orc c)) = None
        \<and> data (cache (fetchQuery orc c))
            = Some (order_desc (filter (policy (server c)) (rows (server c))))
        \<and> surfaced (fetchQuery orc c) = surfaced c
        \<and> requests (server (fetchQuery orc c)) = requests (server c) @ [Select, Select])
   \<and> (fault (orc (length (requests (server c)))) = Some m1
      \<and> fault (orc (Suc (length (requests (server c))))) = Some m2 \<longrightarrow>
        error (cache (fetchQuery orc c)) = Some (RemoteError m2)
        \<and> data (cache (fetchQuery orc c)) = data (cache c)
        \<and> surfaced (fetchQuery orc c) = surfaced c @ [RemoteError m2]
        \<and> requests (server (fetchQuery orc c)) = requests (server c) @ [Select, Select])
   \<and> queries_retry queryClient = 1 \<and> mutations_retry queryClient = 0
   \<and> (fault (orc (length (requests (server c)))) = Some m1 \<longrightarrow>
        mutateAsync updateMutation (i, u) orc c
          = (Inl (RemoteError m1), c\<lparr>server := received (Update i u) (server c)\<rparr>, 1)
        \<and> mutateAsync deleteMutation i orc c
          = (Inl (RemoteError m1), c\<lparr>server := received (Delete i) (server c)\<rparr>, 1))
   \<and> (uid (server c) = Some usr \<and> fault (orc (length (requests (server c)))) = None
      \<and> fault (orc (Suc (length (requests (server c))))) = Some m2 \<longrightarrow>
        mutateAsync createMutation t orc c
          = (Inl (RemoteError m2),
             c\<lparr>server := received (Insert t usr) (received GetUser (server c))\<rparr>, 1))"
  by (auto simp: fetchQuery_retry_ok fetchQuery_fail queryClient_def updateMutation_run
        deleteMutation_run createMutation_run updateTodo_fault deleteTodo_fault createTodo_fault)


theorem read_retried_once_writes_never_witness:
  "fault (down_once (length (requests (server sample_client)))) = Some timeout
   \<and> fault (down_once (Suc (length (requests (server sample_client))))) = None
   \<and> error (cache (fetchQuery down_once sample_client)) = None
   \<and> data (cache (fetchQuery down_once sample_client)) = Some [walk, milk]
   \<and> surfaced (fetchQuery down_once sample_client) = []
   \<and> fault (down (length (requests (server sample_client)))) = Some timeout
   \<and> fault (down (Suc (length (requests (server sample_client))))) = Some timeout
   \<and> error (cache (fetchQuery down sample_client)) = Some (RemoteError timeout)
   \<and> data (cache (fetchQuery down sample_client)) = Some [walk]
   \<and> surfaced (fetchQuery down sample_client) = [RemoteError timeout]
   \<and> requests (server (fetchQuery down sample_client)) = [Select, Select]
   \<and> mutateAsync deleteMutation (js ''id-1'') down sample_client
       = (Inl (RemoteError timeout),
          sample_client\<lparr>server := received (Delete (js ''id-1'')) sample_remote\<rparr>, 1)
   \<and> uid (server sample_client) = Some alice
   \<and> fault (down_second (length (requests (server sample_client)))) = None
   \<and> fault (down_second (Suc (length (requests (server sample_client))))) = Some timeout
   \<and> mutateAsync createMutation (js ''Tea'') down_second sample_client
       = (Inl (RemoteError timeout),
          sample_client\<lparr>server := received (Insert (js ''Tea'') alice)
                                     (received GetUser sample_remote)\<rparr>, 1)"
proof -
  have a1: "fault (down_once (length (requests (server sample_client)))) = Some timeout"
    and a2: "fault (down_once (Suc (length (requests (server sample_client))))) = None"
    by (simp_all add: down_once_def sample_client_def sample_remote_def bad_def good_def)
  have b1: "fault (down (length (requests (server sample_client)))) = Some timeout"
    and b2: "fault (down (Suc (length (requests (server sample_client))))) = Some timeout"
    by (simp_all add: down_def bad_def)
  have c0: "uid (server sample_client) = Some alice"
    and c1: "fault (down_second (length (requests (server sample_client)))) = None"
    and c2: "fault (down_second (Suc (length (requests (server sample_client))))) = Some timeout"
    by (simp_all add: down_second_def sample_client_def sample_remote_def bad_def good_def)
  have srv: "server sample_client = sample_remote" "surfaced sample_client = []"
    "data (cache sample_client) = Some [walk]"
    by (simp_all add: sample_client_def)
  have vis: "order_desc (filter (policy sample_remote) (rows sample_remote)) = [walk, milk]"
    by (simp add: order_desc_def policy_def sample_defs)
  have req: "requests sample_remote = []"
    by (simp add: sample_remote_def)
  note r1 = read_retried_once_writes_never[where orc = down_once and c = sample_client
      and ?m1.0 = timeout, THEN conjunct1, rule_format, OF conjI[OF a1 a2]]
  note r2 = read_retried_once_writes_never[where orc = down and c = sample_client
      and ?m1.0 = timeout and ?m2.0 = timeout, THEN conjunct2, THEN conjunct1, rule_format,
      OF conjI[OF b1 b2]]
  note r3 = read_retried_once_writes_never[where orc = down and c = sample_client
      and ?m1.0 = timeout and i = "js ''id-1''", THEN conjunct2, THEN conjunct2, THEN conjunct2,
      THEN conjunct2, THEN conjunct1, rule_format, OF b1]
  note r4 = read_retried_once_writes_never[where orc = down_second and c = sample_client
      and ?m2.0 = timeout and usr = alice and t = "js ''Tea''", THEN conjunct2, THEN conjunct2,
      THEN conjunct2, THEN conjunct2, THEN conjunct2, rule_format, OF conjI[OF c0 conjI[OF c1 c2]]]
  from r1 have d1: "error (cache (fetchQuery down_once sample_client)) = None"
    and d2: "data (cache (fetchQuery down_once sample_client)) = Some [walk, milk]"
    and d3: "surfaced (fetchQuery down_once sample_client) = []"
    by (simp_all add: srv vis)
  from r2 have e1: "error (cache (fetchQuery down sample_client)) = Some (RemoteError timeout)"
    and e2: "data (cache (fetchQuery down sample_client)) = Some [walk]"
    and e3: "surfaced (fetchQuery down sample_client) = [RemoteError timeout]"
    and e4: "requests (server (fetchQuery down sample_client)) = [Select, Select]"
    by (simp_all add: srv req)
  from r3 have f1: "mutateAsync deleteMutation (js ''id-1'') down sample_client
       = (Inl (RemoteError timeout),
          sample_client\<lparr>server := received (Delete (js ''id-1'')) sample_remote\<rparr>, 1)"
    by (simp add: srv)
  from r4 have g1: "mutateAsync createMutation (js ''Tea'') down_second sample_client
       = (Inl (RemoteError timeout),
          sample_client\<lparr>server := received (Insert (js ''Tea'') alice)
                                     (received GetUser sample_remote)\<rparr>, 1)"
    by (simp add: srv)
  show ?thesis
    by (intro conjI) (rule a1 a2 d1 d2 d3 b1 b2 e1 e2 e3 e4 f1 c0 c1 c2 g1)+
qed

theorem mutations_follow_write_protocol_witness:
  "mutateAsync createMutation (js ''Tea'') steady sample_client
     = (Inr tea,
        \<lparr>cache = \<lparr>data = Some [tea, walk, milk], error = None, isInvalidated = False\<rparr>,
         server = \<lparr>rows = [milk, call, walk, tea], uid = Some alice,
                   requests = [GetUser, Insert (js ''Tea'') alice, Select]\<rparr>,
         surfaced = []\<rparr>, 1)
   \<and> mutateAsync updateMutation (toggle (js ''id-1'') True) down sample_client
     = (Inl (RemoteError timeout),
        sample_client\<lparr>server := received (Update (js ''id-1'') (snd (toggle (js ''id-1'') True)))
                                   sample_remote\<rparr>, 1)
   \<and> pending createMutation (js ''Tea'') sample_client = sample_client"
proof -
  note r = mutations_follow_write_protocol[where t = "js ''Tea''" and c = sample_client
      and orc = steady]
  note q = mutations_follow_write_protocol[where i = "js ''id-1''"
      and u = "snd (toggle (js ''id-1'') True)" and c = sample_client and orc = down]
  have run: "createTodo (js ''Tea'') (steady 0) (steady (Suc 0)) sample_remote
       = (Inr tea, \<lparr>rows = [milk, call, walk, tea], uid = Some alice,
                    requests = [GetUser, Insert (js ''Tea'') alice]\<rparr>)"
    by (simp add: createTodo_def auth_getUser_def insert_single_def received_def policy_def
          Let_def tea_def steady_def sample_defs)
  have rd: "fetchQuery steady
       \<lparr>cache = \<lparr>data = Some [walk], error = None, isInvalidated = True\<rparr>,
        server = \<lparr>rows = [milk, call, walk, tea], uid = Some alice,
                  requests = [GetUser, Insert (js ''Tea'') alice]\<rparr>,
        surfaced = []\<rparr>
     = \<lparr>cache = \<lparr>data = Some [tea, walk, milk], error = None, isInvalidated = False\<rparr>,
         server = \<lparr>rows = [milk, call, walk, tea], uid = Some alice,
                   requests = [GetUser, Insert (js ''Tea'') alice, Select]\<rparr>,
         surfaced = []\<rparr>"
    by (simp add: fetchQuery_first_ok steady_def good_def order_desc_def policy_def received_def
          tea_def milk_def call_def walk_def alice_def bob_def js_def)
  have c1: "mutateAsync createMutation (js ''Tea'') steady sample_client
     = (Inr tea,
        \<lparr>cache = \<lparr>data = Some [tea, walk, milk], error = None, isInvalidated = False\<rparr>,
         server = \<lparr>rows = [milk, call, walk, tea], uid = Some alice,
                   requests = [GetUser, Insert (js ''Tea'') alice, Select]\<rparr>,
         surfaced = []\<rparr>, 1)"
    using r[THEN conjunct2, THEN conjunct2, THEN conjunct2, THEN conjunct1] run rd
    by (simp add: sample_client_def sample_remote_def)
  have dn: "updateTodo (js ''id-1'') (snd (toggle (js ''id-1'') True)) (down 0) sample_remote
      = (Inl (RemoteError timeout),
         received (Update (js ''id-1'') (snd (toggle (js ''id-1'') True))) sample_remote)"
    by (simp add: updateTodo_fault down_def bad_def)
  have c2: "mutateAsync updateMutation (toggle (js ''id-1'') True) down sample_client
     = (Inl (RemoteError timeout),
        sample_client\<lparr>server := received (Update (js ''id-1'') (snd (toggle (js ''id-1'') True)))
                                   sample_remote\<rparr>, 1)"
    using q[THEN conjunct2, THEN conjunct2, THEN conjunct2, THEN conjunct2, THEN conjunct1] dn
    by (simp add: sample_client_def sample_remote_def toggle_def)
  show ?thesis
    by (intro conjI) (rule c1 c2 r[THEN conjunct1])+
qed

section \<open>Properties of creates in flight together\<close>

text \<open>One call alone, answered twice, is \<open>createTodo\<close> (see \<open>createTodo_as_task\<close> below);
  every answer keeps \<open>bulk_inv\<close>.\<close>

lemma settled_rows_update:
  "k < length ts \<Longrightarrow>
     mset (settled_rows (ts[k := y])) + mset (returned (ts ! k))
       = mset (settled_rows ts) + mset (returned y)"
proof (induction ts arbitrary: k)
  case Nil
  then show ?case by simp
next
  case (Cons a ts)
  show ?case
  proof (cases k)
    case 0
    then show ?thesis by (simp add: settled_rows_def)
  next
    case (Suc j)
    with Cons.prems have "j < length ts" by simp
    from Cons.IH[OF this] Suc show ?thesis
      by (simp add: settled_rows_def)
  qed
qed

lemma resume_keeps:
  assumes "resume task e r = (task', r')" and "task_ok r0 t task" and "uid r = uid r0"
  shows "task_ok r0 t task' \<and> uid r' = uid r0
         \<and> mset (rows r') + mset (returned task) = mset (rows r) + mset (returned task')"
proof (cases task)
  case (AwaitUser x)
  with assms show ?thesis
    by (auto simp: auth_getUser_def received_def returned_def split: if_splits option.splits)
next
  case (AwaitInsert x u)
  with assms show ?thesis
    by (auto simp: insert_single_def received_def returned_def policy_def Let_def
          split: if_splits option.splits)
next
  case (Settled res)
  with assms show ?thesis by auto
qed

lemma deliver_keeps:
  assumes "bulk_inv titles r0 s"
  shows "bulk_inv titles r0 (deliver ev s)"
proof (cases s)
  case (Pair ts r)
  with assms have len: "length ts = length titles" and u: "uid r = uid r0"
    and ok: "list_all2 (task_ok r0) titles ts"
    and rows: "mset (rows r) = mset (rows r0) + mset (settled_rows ts)"
    by (simp_all add: bulk_inv_def)
  show ?thesis
  proof (cases ev)
    case (Read e)
    with Pair len u ok rows show ?thesis
      by (simp add: bulk_inv_def select_order_def received_def split: option.splits)
  next
    case (Resume k e)
    show ?thesis
    proof (cases "k < length ts")
      case False
      with Pair Resume assms show ?thesis by simp
    next
      case True
      obtain task' r' where res: "resume (ts ! k) e r = (task', r')"
        by (cases "resume (ts ! k) e r")
      from ok True len have "task_ok r0 (titles ! k) (ts ! k)"
        by (simp add: list_all2_nthD2)
      from resume_keeps[OF res this u]
      have t': "task_ok r0 (titles ! k) task'" and u': "uid r' = uid r0"
        and m: "mset (rows r') + mset (returned (ts ! k)) = mset (rows r) + mset (returned task')"
        by simp_all
      have ok': "list_all2 (task_ok r0) titles (ts[k := task'])"
        using ok t' True len
        by (metis list_all2_update_cong list_update_id)
      have "mset (rows r') + mset (returned (ts ! k))
              = mset (rows r0) + (mset (settled_rows (ts[k := task'])) + mset (returned (ts ! k)))"
        using m rows settled_rows_update[OF True, of task'] by (simp add: ac_simps)
      then have rows': "mset (rows r') = mset (rows r0) + mset (settled_rows (ts[k := task']))"
        by simp
      from Pair Resume True res len u' ok' rows' show ?thesis
        by (simp add: bulk_inv_def)
    qed
  qed
qed

lemma run_keeps: "bulk_inv titles r0 s \<Longrightarrow> bulk_inv titles r0 (run schedule s)"
  unfolding run_def
  by (induction schedule arbitrary: s) (simp_all add: deliver_keeps)

lemma dispatch_inv: "bulk_inv titles r (dispatch titles, r)"
proof -
  have "list_all2 (task_ok r) titles (map AwaitUser titles)"
    by (induction titles) simp_all
  moreover have "settled_rows (map AwaitUser titles) = []"
    by (induction titles) (simp_all add: settled_rows_def returned_def)
  ultimately show ?thesis
    by (simp add: bulk_inv_def dispatch_def)
qed

lemma fulfilled_rows:
  "list_all2 (task_ok r0) titles ts \<Longrightarrow> list_all fulfilled ts \<Longrightarrow>
     map title (settled_rows ts) = titles \<and> (\<forall>d \<in> set (settled_rows ts). policy r0 d)"
proof (induction titles ts rule: list_all2_induct)
  case Nil
  then show ?case by (simp add: settled_rows_def)
next
  case (Cons t ts task tasks)
  from Cons.prems have "fulfilled task" "list_all fulfilled tasks" by simp_all
  then obtain d where d: "task = Settled (Inr d)"
    by (auto simp: fulfilled_def split: task.splits sum.splits)
  with Cons.hyps have "title d = t" "policy r0 d" by simp_all
  with Cons.IH[OF \<open>list_all fulfilled tasks\<close>] d show ?case
    by (simp add: settled_rows_def returned_def)
qed

lemma createTodo_as_task:
  "run [Resume 0 e1, Resume 0 e2] (dispatch [t], r)
     = (case createTodo t e1 e2 r of (res, r') \<Rightarrow> ([Settled res], r'))"
  by (simp add: run_def dispatch_def createTodo_def split: prod.splits option.splits sum.splits)

text \<open>A call that is answered twice without fault, the second time with a fresh id, is
  fulfilled, whatever the other calls are doing.\<close>

lemma answered_call_is_fulfilled:
  assumes "k < length ts" and "ts ! k = AwaitUser t" and "uid r = Some u"
    and "fault e1 = None" and "fault e2 = None" and "uuid e2 \<notin> todo_id ` set (rows r)"
  shows "run [Resume k e1, Resume k e2] (ts, r)
     = (ts[k := Settled (Inr \<lparr>todo_id = uuid e2, title = t, completed = False,
                               created_at = now e2, user_id = u\<rparr>)],
        (received (Insert t u) (received GetUser r))
          \<lparr>rows := rows r @ [\<lparr>todo_id = uuid e2, title = t, completed = False,
                                created_at = now e2, user_id = u\<rparr>]\<rparr>)"
  using assms
  by (simp add: run_def auth_getUser_def insert_single_def policy_def Let_def)

text \<open>
  Claim C9, as amended. Creates for the titles are all started before any answer arrives; the service
  answers them in any order, reads in between included. Once every call has returned its row,
  one read of the list returns the titles that were visible before together with each
  submitted title once more: for distinct titles none of which was there before, each is
  present exactly once. This holds for every order of the titles and every schedule, and the
  list is ordered by the \<open>created_at\<close> the service assigned, newest first.
\<close>

theorem bulk_add_every_title_once:
  assumes "run schedule (dispatch titles, r) = (ts, r')"
    and "list_all fulfilled ts"
    and "fetchTodos e r' = (Inr result, r'')"
  shows "mset (map title result) = mset (map title (filter (policy r) (rows r))) + mset titles
     \<and> (distinct titles \<longrightarrow>
          (\<forall>t \<in> set titles. t \<notin> title ` set (filter (policy r) (rows r)) \<longrightarrow>
             count (mset (map title result)) t = 1))
     \<and> sorted_wrt (\<lambda>a b. created_at b \<le> created_at a) result"
proof -
  from run_keeps[OF dispatch_inv, of titles r schedule] assms(1)
  have inv: "bulk_inv titles r (ts, r')" by simp
  then have u: "uid r' = uid r" and ok: "list_all2 (task_ok r) titles ts"
    and rows: "mset (rows r') = mset (rows r) + mset (settled_rows ts)"
    by (simp_all add: bulk_inv_def)
  from fulfilled_rows[OF ok assms(2)]
  have tl: "map title (settled_rows ts) = titles"
    and vis: "\<forall>d \<in> set (settled_rows ts). policy r d" by simp_all
  have pol: "policy r' = policy r"
    using u by (simp add: policy_def fun_eq_iff)
  from assms(3) have res: "mset result = filter_mset (policy r) (mset (rows r'))"
    and srt: "sorted_wrt (\<lambda>a b. created_at b \<le> created_at a) result"
    by (auto simp: fetchTodos_def select_order_def order_desc_mset order_desc_sorted pol
          split: option.splits)
  have "filter_mset (policy r) (mset (settled_rows ts)) = mset (settled_rows ts)"
    using vis by (simp add: filter_mset_eq_conv)
  with res rows have "mset result = filter_mset (policy r) (mset (rows r)) + mset (settled_rows ts)"
    by simp
  then have "image_mset title (mset result)
      = image_mset title (filter_mset (policy r) (mset (rows r)))
        + image_mset title (mset (settled_rows ts))"
    by simp
  then have eq: "mset (map title result)
      = mset (map title (filter (policy r) (rows r))) + mset titles"
    using tl by (metis mset_filter mset_map)
  have once: "count (mset (map title result)) t = 1"
    if "distinct titles" "t \<in> set titles" "t \<notin> title ` set (filter (policy r) (rows r))" for t
  proof -
    from that(3) have z: "count (mset (map title (filter (policy r) (rows r)))) t = 0"
      by (simp add: count_eq_zero_iff)
    from that(1,2) have o: "count (mset titles) t = 1"
      by (simp add: distinct_count_atmost_1)
    have "count (mset (map title result)) t
        = count (mset (map title (filter (policy r) (rows r)))) t + count (mset titles) t"
      by (simp only: eq count_union)
    with z o show ?thesis by linarith
  qed
  from eq once srt show ?thesis by blast
qed


lemmas abc_defs = abc_def abc_schedule_def row_a_def row_b_def row_c_def abc_remote_def
  empty_remote_def alice_def good_def js_def

theorem bulk_add_every_title_once_witness:
  "run abc_schedule (dispatch abc, empty_remote)
     = ([Settled (Inr row_a), Settled (Inr row_b), Settled (Inr row_c)], abc_remote)
   \<and> list_all fulfilled [Settled (Inr row_a), Settled (Inr row_b), Settled (Inr row_c)]
   \<and> fetchTodos (good [] 6) abc_remote = (Inr [row_a, row_c, row_b], received Select abc_remote)
   \<and> distinct abc
   \<and> mset (map title [row_a, row_c, row_b]) = mset abc
   \<and> count (mset (map title [row_a, row_c, row_b])) (js ''A'') = 1
   \<and> count (mset (map title [row_a, row_c, row_b])) (js ''B'') = 1
   \<and> count (mset (map title [row_a, row_c, row_b])) (js ''C'') = 1
   \<and> sorted_wrt (\<lambda>a b. created_at b \<le> created_at a) [row_a, row_c, row_b]"
proof -
  have h1: "run abc_schedule (dispatch abc, empty_remote)
     = ([Settled (Inr row_a), Settled (Inr row_b), Settled (Inr row_c)], abc_remote)"
    by (simp add: run_def dispatch_def auth_getUser_def insert_single_def select_order_def
          received_def policy_def Let_def abc_defs)
  have h2: "list_all fulfilled [Settled (Inr row_a), Settled (Inr row_b), Settled (Inr row_c)]"
    by (simp add: fulfilled_def)
  have h3: "fetchTodos (good [] 6) abc_remote
      = (Inr [row_a, row_c, row_b], received Select abc_remote)"
    by (simp add: fetchTodos_def select_order_def order_desc_def policy_def received_def abc_defs)
  have h4: "distinct abc"
    by (simp add: abc_def js_def)
  have h5: "filter (policy empty_remote) (rows empty_remote) = []"
    by (simp add: empty_remote_def)
  note r = bulk_add_every_title_once[OF h1 h2 h3]
  from r[THEN conjunct1] h5 have c1: "mset (map title [row_a, row_c, row_b]) = mset abc"
    by simp
  from r[THEN conjunct2, THEN conjunct1, rule_format, OF h4] h5
  have c2: "\<forall>t \<in> set abc. count (mset (map title [row_a, row_c, row_b])) t = 1"
    by simp
  then have c2a: "count (mset (map title [row_a, row_c, row_b])) (js ''A'') = 1"
    and c2b: "count (mset (map title [row_a, row_c, row_b])) (js ''B'') = 1"
    and c2c: "count (mset (map title [row_a, row_c, row_b])) (js ''C'') = 1"
    by (simp_all add: abc_def)
  note c3 = r[THEN conjunct2, THEN conjunct2]
  show ?thesis
    by (intro conjI) (rule h1 h2 h3 h4 c1 c2a c2b c2c c3)+
qed

text \<open>
  Claim C9 as stated has every submitted title exactly once in the list. The table has no
  uniqueness on \<open>title\<close>: with \<open>Buy milk\<close> already listed, adding \<open>Buy milk\<close> gives a
  second row, and the read returns the title twice.
\<close>

theorem title_already_listed_comes_twice:
  "run [Resume 0 (good [] 40), Resume 0 (good (js ''id-4'') 40)]
       (dispatch [js ''Buy milk''], sample_remote)
     = ([Settled (Inr milk_again)],
        \<lparr>rows = [milk, call, walk, milk_again], uid = Some alice,
         requests = [GetUser, Insert (js ''Buy milk'') alice]\<rparr>)
   \<and> list_all fulfilled [Settled (Inr milk_again)]
   \<and> fst (fetchTodos (good [] 41)
        \<lparr>rows = [milk, call, walk, milk_again], uid = Some alice,
         requests = [GetUser, Insert (js ''Buy milk'') alice]\<rparr>) = Inr [milk_again, walk, milk]
   \<and> count (mset (map title [milk_again, walk, milk])) (js ''Buy milk'') = 2"
  by (simp add: run_def dispatch_def auth_getUser_def insert_single_def fetchTodos_def
        select_order_def order_desc_def fulfilled_def received_def policy_def Let_def
        milk_again_def sample_defs)

end
